theory Spec2Isabelle
  imports Main
begin

section \<open>Payload objects\<close>

text \<open>
  \<^verbatim>\<open>Result<Ok, Err>\<close> (include/ditto/result.h) is a template: the payload types
  \<^verbatim>\<open>Ok\<close> and \<^verbatim>\<open>Err\<close> are its parameters. What the container keeps in its
  \<^verbatim>\<open>m_memory_buffer\<close> is the object representation of one payload. Two kinds of C++
  object are covered:
  \<^item> \<open>Inline a\<close>: an object whose bytes are its value (\<^verbatim>\<open>int\<close>, an enum);
  \<^item> \<open>Owns p\<close>: an object whose bytes hold a pointer to a heap block it owns
    (\<^verbatim>\<open>std::string\<close>, \<^verbatim>\<open>std::vector\<close>); \<open>Vacated\<close> is such an object after it
    has been moved from (its pointer is null).
  The heap is a list of blocks indexed by address; a freed block is \<open>None\<close>.
\<close>

type_synonym addr = nat

datatype 'a obj = Inline 'a | Owns addr | Vacated

type_synonym 'a heap = "'a option list"

datatype fault =
    Verify_Failed         \<comment> \<open>\<^verbatim>\<open>DITTO_VERIFY\<close> aborted the process\<close>
  | Undefined_Behaviour   \<comment> \<open>a read of storage as a type it does not hold, or of a freed block\<close>

definition heap_lookup :: "'a heap \<Rightarrow> addr \<Rightarrow> 'a option" where
  "heap_lookup h p = (if p < length h then h ! p else None)"

text \<open>The value an object denotes in a heap.\<close>

fun obj_value :: "'a heap \<Rightarrow> 'a obj \<Rightarrow> 'a option" where
  "obj_value h (Inline a) = Some a"
| "obj_value h (Owns p) = heap_lookup h p"
| "obj_value h Vacated = None"

text \<open>
  The payload type's own move constructor, \<^verbatim>\<open>T{std::move(src)}\<close>: the new object and
  the source afterwards. An owning object hands its block over; an inline one is copied.
\<close>

fun obj_move :: "'a obj \<Rightarrow> 'a obj \<times> 'a obj" where
  "obj_move (Inline a) = (Inline a, Inline a)"
| "obj_move (Owns p) = (Owns p, Vacated)"
| "obj_move Vacated = (Vacated, Vacated)"

text \<open>
  The payload type's own copy constructor, \<^verbatim>\<open>T{src}\<close>: an owning object allocates a
  block of its own (at the end of the heap) and copies the contents into it.
\<close>

fun obj_copy :: "'a heap \<Rightarrow> 'a obj \<Rightarrow> fault + ('a heap \<times> 'a obj)" where
  "obj_copy h (Inline a) = Inr (h, Inline a)"
| "obj_copy h (Owns p) =
     (case heap_lookup h p of
        None \<Rightarrow> Inl Undefined_Behaviour
      | Some v \<Rightarrow> Inr (h @ [Some v], Owns (length h)))"
| "obj_copy h Vacated = Inr (h, Vacated)"

text \<open>The payload type's own destructor: an owning object frees its block.\<close>

fun obj_destroy :: "'a heap \<Rightarrow> 'a obj \<Rightarrow> fault + 'a heap" where
  "obj_destroy h (Inline a) = Inr h"
| "obj_destroy h (Owns p) =
     (case heap_lookup h p of
        None \<Rightarrow> Inl Undefined_Behaviour
      | Some v \<Rightarrow> Inr (h[p := None]))"
| "obj_destroy h Vacated = Inr h"

text \<open>
  A mutation of the payload in place through a reference to it (\<^verbatim>\<open>s[0] = 'x'\<close>,
  \<^verbatim>\<open>n = 10\<close>): \<open>f\<close> is the change of the value. An owning object changes its
  block, an inline one its own bytes.
\<close>

fun obj_update :: "('a \<Rightarrow> 'a) \<Rightarrow> 'a heap \<Rightarrow> 'a obj \<Rightarrow> fault + ('a heap \<times> 'a obj)" where
  "obj_update f h (Inline a) = Inr (h, Inline (f a))"
| "obj_update f h (Owns p) =
     (case heap_lookup h p of
        None \<Rightarrow> Inl Undefined_Behaviour
      | Some v \<Rightarrow> Inr (h[p := Some (f v)], Owns p))"
| "obj_update f h Vacated = Inl Undefined_Behaviour"

section \<open>The assertion primitive\<close>

text \<open>
  Modelled from the spec: the macro \<^verbatim>\<open>DITTO_VERIFY\<close> of \<^verbatim>\<open>ditto/assert.h\<close>, which
  result.h includes and which is not among the sources. The specification describes it as
  "verify condition, else abort the process with a diagnostic": a true condition lets the
  caller go on, a false one ends the run with \<open>Verify_Failed\<close>.
\<close>

definition DITTO_VERIFY :: "bool \<Rightarrow> fault + unit" where
  "DITTO_VERIFY condition = (if condition then Inr () else Inl Verify_Failed)"

section \<open>The full form \<^verbatim>\<open>Result<Ok, Err>\<close>\<close>

text \<open>
  \<^verbatim>\<open>m_memory_buffer\<close> is raw aligned storage, large enough for either payload. It is
  uninitialised, or holds the representation of an \<^verbatim>\<open>Ok\<close> or of an \<^verbatim>\<open>Err\<close>.
\<close>

datatype ('ok, 'err) storage = Uninitialised | Holds_Ok "'ok obj" | Holds_Err "'err obj"

record ('ok, 'err) Result =
  m_is_ok :: bool
  m_memory_buffer :: "('ok, 'err) storage"

text \<open>
  \<^verbatim>\<open>*reinterpret_cast<Ok*>(&m_memory_buffer)\<close> and its \<^verbatim>\<open>Err\<close> twin: reading the
  buffer as a type it does not hold is undefined behaviour.
\<close>

definition reinterpret_Ok :: "('ok, 'err) storage \<Rightarrow> fault + 'ok obj" where
  "reinterpret_Ok b = (case b of Holds_Ok x \<Rightarrow> Inr x | _ \<Rightarrow> Inl Undefined_Behaviour)"

definition reinterpret_Err :: "('ok, 'err) storage \<Rightarrow> fault + 'err obj" where
  "reinterpret_Err b = (case b of Holds_Err x \<Rightarrow> Inr x | _ \<Rightarrow> Inl Undefined_Behaviour)"

text \<open>
  The private \<^verbatim>\<open>Result() = default\<close>: \<^verbatim>\<open>m_is_ok\<close> takes its default member
  initialiser \<^verbatim>\<open>false\<close>, the buffer is left alone. Every constructor starts here.
\<close>

definition Result_default :: "('ok, 'err) Result" where
  "Result_default = \<lparr>m_is_ok = False, m_memory_buffer = Uninitialised\<rparr>"

text \<open>
  \<^verbatim>\<open>Result(Ok val)\<close> and \<^verbatim>\<open>Result(Err val)\<close>: the payload is move-constructed in
  the buffer from the by-value parameter, then the flag is set. The parameter is left
  moved-from and dies with the call.
\<close>

definition Result_from_Ok :: "'ok obj \<Rightarrow> ('ok, 'err) Result" where
  "Result_from_Ok val =
     (let this = Result_default;
          this = this\<lparr>m_memory_buffer := Holds_Ok (fst (obj_move val))\<rparr>;
          this = this\<lparr>m_is_ok := True\<rparr>
      in this)"

definition Result_from_Err :: "'err obj \<Rightarrow> ('ok, 'err) Result" where
  "Result_from_Err val =
     (let this = Result_default;
          this = this\<lparr>m_memory_buffer := Holds_Err (fst (obj_move val))\<rparr>;
          this = this\<lparr>m_is_ok := False\<rparr>
      in this)"

text \<open>
  The factories \<^verbatim>\<open>Result::ok(args...)\<close> and \<^verbatim>\<open>Result::error(args...)\<close>. The
  payload constructor that \<^verbatim>\<open>Ok{std::forward<Args>(args)...}\<close> selects is the
  parameter \<open>ctor\<close>; it runs in a state \<open>'s\<close> of its own (it may allocate). The
  argument pack is one value of type \<open>'args\<close>: \<open>unit\<close> for no argument, a tuple for
  several. The local \<^verbatim>\<open>result\<close> is returned in place.
\<close>

definition ok :: "('args \<Rightarrow> 's \<Rightarrow> 'ok obj \<times> 's) \<Rightarrow> 'args \<Rightarrow> 's \<Rightarrow> ('ok, 'err) Result \<times> 's" where
  "ok ctor args s =
     (let result = Result_default;
          (payload, s') = ctor args s;
          result = result\<lparr>m_memory_buffer := Holds_Ok payload\<rparr>;
          result = result\<lparr>m_is_ok := True\<rparr>
      in (result, s'))"

definition error :: "('args \<Rightarrow> 's \<Rightarrow> 'err obj \<times> 's) \<Rightarrow> 'args \<Rightarrow> 's \<Rightarrow> ('ok, 'err) Result \<times> 's" where
  "error ctor args s =
     (let result = Result_default;
          (payload, s') = ctor args s;
          result = result\<lparr>m_memory_buffer := Holds_Err payload\<rparr>;
          result = result\<lparr>m_is_ok := False\<rparr>
      in (result, s'))"

text \<open>The queries are \<^verbatim>\<open>const\<close> members: functions of the object, with no new state.\<close>

definition is_error :: "('ok, 'err) Result \<Rightarrow> bool" where
  "is_error this = (\<not> m_is_ok this)"

definition is_ok :: "('ok, 'err) Result \<Rightarrow> bool" where
  "is_ok this = m_is_ok this"

text \<open>
  The borrowing accessors \<^verbatim>\<open>ok_value() &\<close> and \<^verbatim>\<open>error_value() &\<close> return a
  reference to the payload in the buffer: here, the object the reference designates.
\<close>

definition ok_value :: "('ok, 'err) Result \<Rightarrow> fault + 'ok obj" where
  "ok_value this =
     (case DITTO_VERIFY (m_is_ok this) of
        Inl e \<Rightarrow> Inl e
      | Inr _ \<Rightarrow> reinterpret_Ok (m_memory_buffer this))"

definition error_value :: "('ok, 'err) Result \<Rightarrow> fault + 'err obj" where
  "error_value this =
     (case DITTO_VERIFY (\<not> m_is_ok this) of
        Inl e \<Rightarrow> Inl e
      | Inr _ \<Rightarrow> reinterpret_Err (m_memory_buffer this))"

text \<open>
  A change of the payload through the reference that the borrowing accessor returned
  (\<^verbatim>\<open>r.ok_value() = ...\<close>, \<^verbatim>\<open>r.ok_value()[0] = 'x'\<close>): the heap and the object after.
\<close>

definition ok_value_update ::
  "('ok \<Rightarrow> 'ok) \<Rightarrow> 'ok heap \<Rightarrow> ('ok, 'err) Result \<Rightarrow> fault + ('ok heap \<times> ('ok, 'err) Result)" where
  "ok_value_update f h this =
     (case ok_value this of
        Inl e \<Rightarrow> Inl e
      | Inr x \<Rightarrow>
          (case obj_update f h x of
             Inl e \<Rightarrow> Inl e
           | Inr (h', x') \<Rightarrow> Inr (h', this\<lparr>m_memory_buffer := Holds_Ok x'\<rparr>)))"

definition error_value_update ::
  "('err \<Rightarrow> 'err) \<Rightarrow> 'err heap \<Rightarrow> ('ok, 'err) Result \<Rightarrow> fault + ('err heap \<times> ('ok, 'err) Result)" where
  "error_value_update f h this =
     (case error_value this of
        Inl e \<Rightarrow> Inl e
      | Inr x \<Rightarrow>
          (case obj_update f h x of
             Inl e \<Rightarrow> Inl e
           | Inr (h', x') \<Rightarrow> Inr (h', this\<lparr>m_memory_buffer := Holds_Err x'\<rparr>)))"

text \<open>
  The consuming accessors \<^verbatim>\<open>ok_value() &&\<close> and \<^verbatim>\<open>error_value() &&\<close> return
  \<^verbatim>\<open>std::move\<close> of the payload, from which the caller move-constructs its own object
  ("This forces a move of the value"). The result is that object and the source
  afterwards: the members are not written, the payload in the buffer is moved-from.
\<close>

definition ok_value_rvalue :: "('ok, 'err) Result \<Rightarrow> fault + ('ok obj \<times> ('ok, 'err) Result)" where
  "ok_value_rvalue this =
     (case DITTO_VERIFY (m_is_ok this) of
        Inl e \<Rightarrow> Inl e
      | Inr _ \<Rightarrow>
          (case reinterpret_Ok (m_memory_buffer this) of
             Inl e \<Rightarrow> Inl e
           | Inr x \<Rightarrow>
               Inr (fst (obj_move x), this\<lparr>m_memory_buffer := Holds_Ok (snd (obj_move x))\<rparr>)))"

definition error_value_rvalue :: "('ok, 'err) Result \<Rightarrow> fault + ('err obj \<times> ('ok, 'err) Result)" where
  "error_value_rvalue this =
     (case DITTO_VERIFY (\<not> m_is_ok this) of
        Inl e \<Rightarrow> Inl e
      | Inr _ \<Rightarrow>
          (case reinterpret_Err (m_memory_buffer this) of
             Inl e \<Rightarrow> Inl e
           | Inr x \<Rightarrow>
               Inr (fst (obj_move x), this\<lparr>m_memory_buffer := Holds_Err (snd (obj_move x))\<rparr>)))"

text \<open>
  \<^verbatim>\<open>~Result()\<close> runs the destructor of the payload that the flag names: the result
  is that payload, \<open>Inl\<close> for \<^verbatim>\<open>ok->~Ok()\<close> and \<open>Inr\<close> for \<^verbatim>\<open>err->~Err()\<close>.
\<close>

definition Result_dtor :: "('ok, 'err) Result \<Rightarrow> fault + ('ok obj + 'err obj)" where
  "Result_dtor this =
     (if m_is_ok this then
        (case reinterpret_Ok (m_memory_buffer this) of Inl e \<Rightarrow> Inl e | Inr x \<Rightarrow> Inr (Inl x))
      else
        (case reinterpret_Err (m_memory_buffer this) of Inl e \<Rightarrow> Inl e | Inr x \<Rightarrow> Inr (Inr x)))"

text \<open>
  The four special members are \<^verbatim>\<open>= default\<close>: each copies or moves the two data
  members. \<^verbatim>\<open>m_is_ok\<close> is a \<^verbatim>\<open>bool\<close> and \<^verbatim>\<open>m_memory_buffer\<close> a
  \<^verbatim>\<open>std::aligned_storage<...>::type\<close>, a plain array of bytes, so that a move of a
  member is a copy of it, the bytes of the buffer are taken as they are, and no
  constructor of the payload runs. The move operations return the new (or assigned)
  object and the source afterwards.
\<close>

definition Result_copy :: "('ok, 'err) Result \<Rightarrow> ('ok, 'err) Result" where
  "Result_copy other = \<lparr>m_is_ok = m_is_ok other, m_memory_buffer = m_memory_buffer other\<rparr>"

definition Result_move :: "('ok, 'err) Result \<Rightarrow> ('ok, 'err) Result \<times> ('ok, 'err) Result" where
  "Result_move other =
     (\<lparr>m_is_ok = m_is_ok other, m_memory_buffer = m_memory_buffer other\<rparr>, other)"

definition Result_copy_assign :: "('ok, 'err) Result \<Rightarrow> ('ok, 'err) Result \<Rightarrow> ('ok, 'err) Result" where
  "Result_copy_assign this other =
     this\<lparr>m_is_ok := m_is_ok other, m_memory_buffer := m_memory_buffer other\<rparr>"

definition Result_move_assign ::
  "('ok, 'err) Result \<Rightarrow> ('ok, 'err) Result \<Rightarrow> ('ok, 'err) Result \<times> ('ok, 'err) Result" where
  "Result_move_assign this other =
     (this\<lparr>m_is_ok := m_is_ok other, m_memory_buffer := m_memory_buffer other\<rparr>, other)"

text \<open>
  Which alternative is live: the flag names it and the buffer holds an object of it.
  The invariant of a constructed object is that one of the two is.
\<close>

definition Ok_live :: "('ok, 'err) Result \<Rightarrow> bool" where
  "Ok_live this =
     (m_is_ok this \<and> (case m_memory_buffer this of Holds_Ok _ \<Rightarrow> True | _ \<Rightarrow> False))"

definition Err_live :: "('ok, 'err) Result \<Rightarrow> bool" where
  "Err_live this =
     (\<not> m_is_ok this \<and> (case m_memory_buffer this of Holds_Err _ \<Rightarrow> True | _ \<Rightarrow> False))"

definition exactly_one_live :: "('ok, 'err) Result \<Rightarrow> bool" where
  "exactly_one_live this = (Ok_live this \<noteq> Err_live this)"

section \<open>The propagation helper\<close>

text \<open>
  \<^verbatim>\<open>PROPAGATE(expression)\<close> is a statement expression inside the body of an enclosing
  function: it either makes that function return, or has a value there.
\<close>

datatype ('v, 'r) control =
    Return 'r    \<comment> \<open>the enclosing function returns \<open>'r\<close>\<close>
  | Value 'v     \<comment> \<open>the statement expression has the value \<open>'v\<close>\<close>

text \<open>
  The expression is a computation in a state \<open>'s\<close> and stands once in the macro, in
  \<^verbatim>\<open>auto _result = expression\<close>. The \<^verbatim>\<open>return\<close> converts the failure payload to
  the enclosing function's type through \<^verbatim>\<open>Result(Err val)\<close>. On both paths the local
  \<^verbatim>\<open>_result\<close> is destroyed, after its payload has been moved out. The accessors it
  calls exist in the full form only.
\<close>

definition PROPAGATE ::
  "('s \<Rightarrow> ('ok, 'err) Result \<times> 's) \<Rightarrow> 's \<Rightarrow>
     fault + (('ok obj, ('ok2, 'err) Result) control \<times> 's)" where
  "PROPAGATE expression s =
     (let (result, s') = expression s in
      if is_error result then
        (case error_value_rvalue result of
           Inl e \<Rightarrow> Inl e
         | Inr (val, result') \<Rightarrow>
             (case Result_dtor result' of
                Inl e \<Rightarrow> Inl e
              | Inr _ \<Rightarrow> Inr (Return (Result_from_Err val), s')))
      else
        (case ok_value_rvalue result of
           Inl e \<Rightarrow> Inl e
         | Inr (val, result') \<Rightarrow>
             (case Result_dtor result' of
                Inl e \<Rightarrow> Inl e
              | Inr _ \<Rightarrow> Inr (Value val, s'))))"

text \<open>
  An enclosing function whose body is \<^verbatim>\<open>auto v = PROPAGATE(expression);\<close> followed by
  the statements \<open>rest\<close>, which use \<open>v\<close> and end in a \<^verbatim>\<open>return\<close>.
\<close>

definition PROPAGATE_then ::
  "('s \<Rightarrow> ('ok, 'err) Result \<times> 's) \<Rightarrow>
   ('ok obj \<Rightarrow> 's \<Rightarrow> fault + (('ok2, 'err) Result \<times> 's)) \<Rightarrow> 's \<Rightarrow>
     fault + (('ok2, 'err) Result \<times> 's)" where
  "PROPAGATE_then expression rest s =
     (case PROPAGATE expression s of
        Inl e \<Rightarrow> Inl e
      | Inr (Return r, s') \<Rightarrow> Inr (r, s')
      | Inr (Value v, s') \<Rightarrow> rest v s')"

section \<open>The Ok-only form \<^verbatim>\<open>Result<Ok, void>\<close>\<close>

text \<open>The buffer has room for an \<^verbatim>\<open>Ok\<close> only; \<open>None\<close> is the uninitialised buffer.\<close>

record 'ok Result_Ok_void =
  m_is_ok_ov :: bool
  m_memory_buffer_ov :: "'ok obj option"

definition reinterpret_Ok_ov :: "'ok obj option \<Rightarrow> fault + 'ok obj" where
  "reinterpret_Ok_ov b = (case b of Some x \<Rightarrow> Inr x | None \<Rightarrow> Inl Undefined_Behaviour)"

definition Result_Ok_void_default :: "'ok Result_Ok_void" where
  "Result_Ok_void_default = \<lparr>m_is_ok_ov = False, m_memory_buffer_ov = None\<rparr>"

definition Result_Ok_void_from_Ok :: "'ok obj \<Rightarrow> 'ok Result_Ok_void" where
  "Result_Ok_void_from_Ok val =
     (let this = Result_Ok_void_default;
          this = this\<lparr>m_memory_buffer_ov := Some (fst (obj_move val))\<rparr>;
          this = this\<lparr>m_is_ok_ov := True\<rparr>
      in this)"

definition ok_Ok_void :: "('args \<Rightarrow> 's \<Rightarrow> 'ok obj \<times> 's) \<Rightarrow> 'args \<Rightarrow> 's \<Rightarrow> 'ok Result_Ok_void \<times> 's" where
  "ok_Ok_void ctor args s =
     (let result = Result_Ok_void_default;
          (payload, s') = ctor args s;
          result = result\<lparr>m_memory_buffer_ov := Some payload\<rparr>;
          result = result\<lparr>m_is_ok_ov := True\<rparr>
      in (result, s'))"

text \<open>\<^verbatim>\<open>static Result error() { return Result{}; }\<close>\<close>

definition error_Ok_void :: "'ok Result_Ok_void" where
  "error_Ok_void = Result_Ok_void_default"

definition is_error_Ok_void :: "'ok Result_Ok_void \<Rightarrow> bool" where
  "is_error_Ok_void this = (\<not> m_is_ok_ov this)"

definition is_ok_Ok_void :: "'ok Result_Ok_void \<Rightarrow> bool" where
  "is_ok_Ok_void this = m_is_ok_ov this"

definition ok_value_Ok_void :: "'ok Result_Ok_void \<Rightarrow> fault + 'ok obj" where
  "ok_value_Ok_void this =
     (case DITTO_VERIFY (m_is_ok_ov this) of
        Inl e \<Rightarrow> Inl e
      | Inr _ \<Rightarrow> reinterpret_Ok_ov (m_memory_buffer_ov this))"

definition ok_value_rvalue_Ok_void :: "'ok Result_Ok_void \<Rightarrow> fault + ('ok obj \<times> 'ok Result_Ok_void)" where
  "ok_value_rvalue_Ok_void this =
     (case DITTO_VERIFY (m_is_ok_ov this) of
        Inl e \<Rightarrow> Inl e
      | Inr _ \<Rightarrow>
          (case reinterpret_Ok_ov (m_memory_buffer_ov this) of
             Inl e \<Rightarrow> Inl e
           | Inr x \<Rightarrow>
               Inr (fst (obj_move x), this\<lparr>m_memory_buffer_ov := Some (snd (obj_move x))\<rparr>)))"

section \<open>The Err-only form \<^verbatim>\<open>Result<void, Err>\<close>\<close>

record 'err Result_void_Err =
  m_is_ok_ve :: bool
  m_memory_buffer_ve :: "'err obj option"

definition reinterpret_Err_ve :: "'err obj option \<Rightarrow> fault + 'err obj" where
  "reinterpret_Err_ve b = (case b of Some x \<Rightarrow> Inr x | None \<Rightarrow> Inl Undefined_Behaviour)"

definition Result_void_Err_default :: "'err Result_void_Err" where
  "Result_void_Err_default = \<lparr>m_is_ok_ve = False, m_memory_buffer_ve = None\<rparr>"

definition Result_void_Err_from_Err :: "'err obj \<Rightarrow> 'err Result_void_Err" where
  "Result_void_Err_from_Err val =
     (let this = Result_void_Err_default;
          this = this\<lparr>m_memory_buffer_ve := Some (fst (obj_move val))\<rparr>;
          this = this\<lparr>m_is_ok_ve := False\<rparr>
      in this)"

text \<open>\<^verbatim>\<open>static Result ok() { Result result; result.m_is_ok = true; return result; }\<close>\<close>

definition ok_void_Err :: "'err Result_void_Err" where
  "ok_void_Err =
     (let result = Result_void_Err_default;
          result = result\<lparr>m_is_ok_ve := True\<rparr>
      in result)"

definition error_void_Err :: "('args \<Rightarrow> 's \<Rightarrow> 'err obj \<times> 's) \<Rightarrow> 'args \<Rightarrow> 's \<Rightarrow> 'err Result_void_Err \<times> 's" where
  "error_void_Err ctor args s =
     (let result = Result_void_Err_default;
          (payload, s') = ctor args s;
          result = result\<lparr>m_memory_buffer_ve := Some payload\<rparr>;
          result = result\<lparr>m_is_ok_ve := False\<rparr>
      in (result, s'))"

definition is_error_void_Err :: "'err Result_void_Err \<Rightarrow> bool" where
  "is_error_void_Err this = (\<not> m_is_ok_ve this)"

definition is_ok_void_Err :: "'err Result_void_Err \<Rightarrow> bool" where
  "is_ok_void_Err this = m_is_ok_ve this"

definition error_value_void_Err :: "'err Result_void_Err \<Rightarrow> fault + 'err obj" where
  "error_value_void_Err this =
     (case DITTO_VERIFY (\<not> m_is_ok_ve this) of
        Inl e \<Rightarrow> Inl e
      | Inr _ \<Rightarrow> reinterpret_Err_ve (m_memory_buffer_ve this))"

definition error_value_rvalue_void_Err ::
  "'err Result_void_Err \<Rightarrow> fault + ('err obj \<times> 'err Result_void_Err)" where
  "error_value_rvalue_void_Err this =
     (case DITTO_VERIFY (\<not> m_is_ok_ve this) of
        Inl e \<Rightarrow> Inl e
      | Inr _ \<Rightarrow>
          (case reinterpret_Err_ve (m_memory_buffer_ve this) of
             Inl e \<Rightarrow> Inl e
           | Inr x \<Rightarrow>
               Inr (fst (obj_move x), this\<lparr>m_memory_buffer_ve := Some (snd (obj_move x))\<rparr>)))"

section \<open>Properties of the payload operations\<close>

lemma fst_obj_move: "fst (obj_move x) = x"
  by (cases x) simp_all

lemma obj_destroy_moved_from: "obj_destroy h (snd (obj_move x)) = Inr h"
  by (cases x) simp_all

lemma obj_copy_inline: "obj_copy h (Inline a) = Inr (h, Inline a)"
  by simp

lemma obj_copy_owns_fresh:
  assumes "obj_copy h (Owns p) = Inr (h', y)"
  shows "y = Owns (length h) \<and> y \<noteq> Owns p \<and> obj_value h' y = obj_value h (Owns p)
         \<and> obj_value h' (Owns p) = obj_value h (Owns p)"
proof -
  from assms obtain v where v: "heap_lookup h p = Some v" and h': "h' = h @ [Some v]"
    and y: "y = Owns (length h)"
    by (auto split: option.splits)
  from v have p: "p < length h"
    by (simp add: heap_lookup_def split: if_splits)
  with v h' y show ?thesis
    by (auto simp add: heap_lookup_def nth_append)
qed

section \<open>Construction and access\<close>

lemma ok_value_live:
  "Ok_live r \<Longrightarrow> \<exists>x. m_memory_buffer r = Holds_Ok x \<and> ok_value r = Inr x"
  by (auto simp add: Ok_live_def ok_value_def DITTO_VERIFY_def reinterpret_Ok_def
      split: storage.splits)

lemma error_value_live:
  "Err_live r \<Longrightarrow> \<exists>x. m_memory_buffer r = Holds_Err x \<and> error_value r = Inr x"
  by (auto simp add: Err_live_def error_value_def DITTO_VERIFY_def reinterpret_Err_def
      split: storage.splits)

lemma ok_value_Inr_iff: "ok_value r = Inr x \<longleftrightarrow> m_is_ok r \<and> m_memory_buffer r = Holds_Ok x"
  by (auto simp add: ok_value_def DITTO_VERIFY_def reinterpret_Ok_def split: storage.splits)

lemma error_value_Inr_iff:
  "error_value r = Inr x \<longleftrightarrow> \<not> m_is_ok r \<and> m_memory_buffer r = Holds_Err x"
  by (auto simp add: error_value_def DITTO_VERIFY_def reinterpret_Err_def split: storage.splits)

lemma ok_value_rvalue_Inr_iff:
  "ok_value_rvalue r = Inr (x, r') \<longleftrightarrow>
     m_is_ok r \<and> m_memory_buffer r = Holds_Ok x \<and>
     r' = r\<lparr>m_memory_buffer := Holds_Ok (snd (obj_move x))\<rparr>"
  by (auto simp add: ok_value_rvalue_def DITTO_VERIFY_def reinterpret_Ok_def fst_obj_move
      split: storage.splits)

lemma error_value_rvalue_Inr_iff:
  "error_value_rvalue r = Inr (x, r') \<longleftrightarrow>
     \<not> m_is_ok r \<and> m_memory_buffer r = Holds_Err x \<and>
     r' = r\<lparr>m_memory_buffer := Holds_Err (snd (obj_move x))\<rparr>"
  by (auto simp add: error_value_rvalue_def DITTO_VERIFY_def reinterpret_Err_def fst_obj_move
      split: storage.splits)

text \<open>
  C1. A full-form Result constructed implicitly from a value \<open>v\<close> of the success type
  answers \<^verbatim>\<open>is_ok()\<close> with true and \<^verbatim>\<open>ok_value()\<close> with \<open>v\<close>; one constructed
  from a value \<open>e\<close> of the failure type answers \<^verbatim>\<open>is_error()\<close> with true and
  \<^verbatim>\<open>error_value()\<close> with \<open>e\<close>. The payload in the buffer has the representation
  that the argument had, and so the same value in every heap.
\<close>

theorem implicit_construction_roundtrip:
  "is_ok (Result_from_Ok v) \<and> ok_value (Result_from_Ok v) = Inr v \<and>
   is_error (Result_from_Err e) \<and> error_value (Result_from_Err e) = Inr e"
  by (simp add: is_ok_def is_error_def ok_value_def error_value_def Result_from_Ok_def
      Result_from_Err_def Result_default_def DITTO_VERIFY_def reinterpret_Ok_def
      reinterpret_Err_def fst_obj_move)

text \<open>
  C2. \<^verbatim>\<open>ok_value()\<close> on a Result whose discriminant is "error", and
  \<^verbatim>\<open>error_value()\<close> on one whose discriminant is "ok", end in the fatal assertion
  and return nothing, in the borrowing and in the consuming form. Conversely, when
  \<^verbatim>\<open>is_ok()\<close> holds the assertion of \<^verbatim>\<open>ok_value()\<close> passes and the accessor does
  not end there, and likewise for \<^verbatim>\<open>error_value()\<close> when \<^verbatim>\<open>is_error()\<close> holds.
\<close>

theorem wrong_alternative_access_is_fatal:
  "(is_error r \<longrightarrow>
      ok_value r = Inl Verify_Failed \<and> ok_value_rvalue r = Inl Verify_Failed) \<and>
   (is_ok r \<longrightarrow>
      error_value r = Inl Verify_Failed \<and> error_value_rvalue r = Inl Verify_Failed) \<and>
   (is_ok r \<longrightarrow>
      DITTO_VERIFY (m_is_ok r) = Inr () \<and>
      ok_value r \<noteq> Inl Verify_Failed \<and> ok_value_rvalue r \<noteq> Inl Verify_Failed) \<and>
   (is_error r \<longrightarrow>
      DITTO_VERIFY (\<not> m_is_ok r) = Inr () \<and>
      error_value r \<noteq> Inl Verify_Failed \<and> error_value_rvalue r \<noteq> Inl Verify_Failed)"
  by (auto simp add: is_ok_def is_error_def ok_value_def error_value_def ok_value_rvalue_def
      error_value_rvalue_def DITTO_VERIFY_def reinterpret_Ok_def reinterpret_Err_def
      split: storage.splits)

theorem wrong_alternative_access_is_fatal_witness:
  "is_error (Result_from_Err (Inline CHR ''E'') :: (int, char) Result) \<and>
   ok_value (Result_from_Err (Inline CHR ''E'') :: (int, char) Result) = Inl Verify_Failed \<and>
   ok_value_rvalue (Result_from_Err (Inline CHR ''E'') :: (int, char) Result) = Inl Verify_Failed \<and>
   error_value (Result_from_Err (Inline CHR ''E'') :: (int, char) Result) \<noteq> Inl Verify_Failed \<and>
   error_value_rvalue (Result_from_Err (Inline CHR ''E'') :: (int, char) Result) \<noteq> Inl Verify_Failed \<and>
   is_ok (Result_from_Ok (Inline 5) :: (int, char) Result) \<and>
   error_value (Result_from_Ok (Inline 5) :: (int, char) Result) = Inl Verify_Failed \<and>
   error_value_rvalue (Result_from_Ok (Inline 5) :: (int, char) Result) = Inl Verify_Failed \<and>
   ok_value (Result_from_Ok (Inline 5) :: (int, char) Result) \<noteq> Inl Verify_Failed \<and>
   ok_value_rvalue (Result_from_Ok (Inline 5) :: (int, char) Result) \<noteq> Inl Verify_Failed"
proof -
  have e: "is_error (Result_from_Err (Inline CHR ''E'') :: (int, char) Result)"
    by (simp add: is_error_def Result_from_Err_def Result_default_def)
  have k: "is_ok (Result_from_Ok (Inline 5) :: (int, char) Result)"
    by (simp add: is_ok_def Result_from_Ok_def Result_default_def)
  show ?thesis
    using e k
      wrong_alternative_access_is_fatal
        [of "Result_from_Err (Inline CHR ''E'') :: (int, char) Result"]
      wrong_alternative_access_is_fatal
        [of "Result_from_Ok (Inline 5) :: (int, char) Result"]
    by (simp add: is_ok_def is_error_def)
qed

section \<open>Copying and moving\<close>

lemma Result_copy_same: "Result_copy r = r"
  by (simp add: Result_copy_def)

lemma Result_move_same: "Result_move r = (r, r)"
  by (simp add: Result_move_def)

lemma Result_copy_keeps:
  "m_is_ok (Result_copy r) = m_is_ok r \<and> ok_value (Result_copy r) = ok_value r \<and>
   error_value (Result_copy r) = error_value r"
  by (simp add: Result_copy_same)

text \<open>
  For a payload whose bytes are its value, the member-wise copy is a copy of the payload:
  a change through the copy leaves the heap, and with it every other object, as it was.
\<close>

lemma Result_copy_inline_independent:
  assumes "ok_value r = Inr (Inline a)"
  shows "ok_value_update f h (Result_copy r) =
           Inr (h, r\<lparr>m_memory_buffer := Holds_Ok (Inline (f a))\<rparr>)"
  using assms by (simp add: ok_value_update_def Result_copy_same)

text \<open>
  C3. The claim is that copy construction, move construction and the two assignments
  duplicate or transfer the live payload through the payload's own copy and move
  operations, so that a change of the copy's payload does not reach the original.
  The four members are defaulted and take the bytes of the buffer. Evaluated on a
  \<^verbatim>\<open>Result<std::string, int>\<close> whose string owns block 0 of the heap, holding
  \<^verbatim>\<open>"abc"\<close>: the copy's payload is the same object representation, with the same
  block, where the string's own copy constructor makes block 1; writing \<^verbatim>\<open>'x'\<close>
  over the first character through the copy's \<^verbatim>\<open>ok_value()\<close> changes the value that
  the original's \<^verbatim>\<open>ok_value()\<close> reads; the move constructor leaves the source
  owning the block as well; and the destructors of the copy and of the original free
  block 0 twice.
\<close>

theorem defaulted_copy_shares_owned_payload:
  "ok_value (Result_from_Ok (Owns 0) :: (string, int) Result) = Inr (Owns 0) \<and>
   obj_value [Some ''abc''] (Owns 0) = Some ''abc'' \<and>
   ok_value (Result_copy (Result_from_Ok (Owns 0) :: (string, int) Result)) = Inr (Owns 0) \<and>
   obj_copy [Some ''abc''] (Owns 0) = Inr ([Some ''abc'', Some ''abc''], Owns 1) \<and>
   ok_value_update (\<lambda>s. CHR ''x'' # tl s) [Some ''abc'']
       (Result_copy (Result_from_Ok (Owns 0) :: (string, int) Result)) =
     Inr ([Some ''xbc''], Result_copy (Result_from_Ok (Owns 0))) \<and>
   obj_value [Some ''xbc''] (Owns 0) = Some ''xbc'' \<and>
   Result_move (Result_from_Ok (Owns 0) :: (string, int) Result) =
     (Result_from_Ok (Owns 0), Result_from_Ok (Owns 0)) \<and>
   Result_dtor (Result_copy (Result_from_Ok (Owns 0) :: (string, int) Result)) =
     Inr (Inl (Owns 0)) \<and>
   obj_destroy [Some ''xbc''] (Owns 0) = Inr [None] \<and>
   Result_dtor (Result_from_Ok (Owns 0) :: (string, int) Result) = Inr (Inl (Owns 0)) \<and>
   obj_destroy ([None] :: string heap) (Owns 0) = Inl Undefined_Behaviour"
  by (simp add: ok_value_def ok_value_update_def Result_copy_def Result_move_def
      Result_dtor_def Result_from_Ok_def Result_default_def DITTO_VERIFY_def
      reinterpret_Ok_def heap_lookup_def)

section \<open>Propagation\<close>

lemma Result_dtor_after_error_value_rvalue:
  "error_value_rvalue r = Inr (x, r') \<Longrightarrow> Result_dtor r' = Inr (Inr (snd (obj_move x)))"
  by (auto simp add: error_value_rvalue_Inr_iff Result_dtor_def reinterpret_Err_def)

lemma Result_dtor_after_ok_value_rvalue:
  "ok_value_rvalue r = Inr (x, r') \<Longrightarrow> Result_dtor r' = Inr (Inl (snd (obj_move x)))"
  by (auto simp add: ok_value_rvalue_Inr_iff Result_dtor_def reinterpret_Ok_def)

lemma PROPAGATE_error:
  assumes "expression s = (r, s')" and "error_value r = Inr e"
  shows "PROPAGATE expression s = Inr (Return (Result_from_Err e), s')"
proof -
  from assms(2) have flag: "is_error r" and buf: "m_memory_buffer r = Holds_Err e"
    by (simp_all add: error_value_Inr_iff is_error_def)
  from assms(2) have mv:
    "error_value_rvalue r = Inr (e, r\<lparr>m_memory_buffer := Holds_Err (snd (obj_move e))\<rparr>)"
    by (simp add: error_value_rvalue_Inr_iff error_value_Inr_iff)
  from mv have "Result_dtor (r\<lparr>m_memory_buffer := Holds_Err (snd (obj_move e))\<rparr>)
      = Inr (Inr (snd (obj_move e)))"
    by (rule Result_dtor_after_error_value_rvalue)
  with assms(1) flag mv show ?thesis
    by (simp add: PROPAGATE_def)
qed

lemma PROPAGATE_ok:
  assumes "expression s = (r, s')" and "ok_value r = Inr v"
  shows "PROPAGATE expression s = Inr (Value v, s')"
proof -
  from assms(2) have flag: "\<not> is_error r" and buf: "m_memory_buffer r = Holds_Ok v"
    by (simp_all add: ok_value_Inr_iff is_error_def)
  from assms(2) have mv:
    "ok_value_rvalue r = Inr (v, r\<lparr>m_memory_buffer := Holds_Ok (snd (obj_move v))\<rparr>)"
    by (simp add: ok_value_rvalue_Inr_iff ok_value_Inr_iff)
  from mv have "Result_dtor (r\<lparr>m_memory_buffer := Holds_Ok (snd (obj_move v))\<rparr>)
      = Inr (Inl (snd (obj_move v)))"
    by (rule Result_dtor_after_ok_value_rvalue)
  with assms(1) flag mv show ?thesis
    by (simp add: PROPAGATE_def)
qed

text \<open>
  C4. \<^verbatim>\<open>PROPAGATE\<close> evaluates its expression once: the state after it is the state
  \<open>s'\<close> that one evaluation leaves. When the Result \<open>r\<close> of the expression is a
  failure with payload \<open>e\<close>, the enclosing function returns at once a Result of its own
  type that is a failure with payload \<open>e\<close>, whatever the statements \<open>rest\<close> after the
  helper are: they do not run. When \<open>r\<close> is a success with payload \<open>v\<close>, the helper has
  the value \<open>v\<close> and the enclosing function goes on with \<open>rest v\<close> in state \<open>s'\<close>.
\<close>

theorem PROPAGATE_short_circuits:
  fixes expression :: "'s \<Rightarrow> ('ok, 'err) Result \<times> 's"
    and rest :: "'ok obj \<Rightarrow> 's \<Rightarrow> fault + (('ok2, 'err) Result \<times> 's)"
  assumes "expression s = (r, s')"
  shows "(\<forall>e. error_value r = Inr e \<longrightarrow>
            PROPAGATE expression s = Inr (Return (Result_from_Err e :: ('ok2, 'err) Result), s') \<and>
            PROPAGATE_then expression rest s = Inr (Result_from_Err e, s') \<and>
            is_error (Result_from_Err e :: ('ok2, 'err) Result) \<and>
            error_value (Result_from_Err e :: ('ok2, 'err) Result) = Inr e) \<and>
         (\<forall>v. ok_value r = Inr v \<longrightarrow>
            PROPAGATE expression s =
              Inr (Value v :: ('ok obj, ('ok2, 'err) Result) control, s') \<and>
            PROPAGATE_then expression rest s = rest v s')"
proof (intro conjI allI impI)
  fix e :: "'err obj"
  assume e: "error_value r = Inr e"
  show p: "PROPAGATE expression s = Inr (Return (Result_from_Err e :: ('ok2, 'err) Result), s')"
    using assms e by (rule PROPAGATE_error)
  then show "PROPAGATE_then expression rest s = Inr (Result_from_Err e, s')"
    by (simp add: PROPAGATE_then_def)
  show "is_error (Result_from_Err e :: ('ok2, 'err) Result)"
    by (simp add: is_error_def Result_from_Err_def Result_default_def)
  show "error_value (Result_from_Err e :: ('ok2, 'err) Result) = Inr e"
    by (simp add: error_value_Inr_iff Result_from_Err_def Result_default_def fst_obj_move)
next
  fix v :: "'ok obj"
  assume v: "ok_value r = Inr v"
  show "PROPAGATE expression s = Inr (Value v :: ('ok obj, ('ok2, 'err) Result) control, s')"
    using assms v by (rule PROPAGATE_ok)
  then show "PROPAGATE_then expression rest s = rest v s'"
    by (simp add: PROPAGATE_then_def)
qed

theorem PROPAGATE_short_circuits_witness:
  "PROPAGATE_then
     (\<lambda>n :: nat. (Result_from_Err (Inline CHR ''Z'') :: (int, char) Result, Suc n))
     (\<lambda>v n. Inr (Result_from_Ok v :: (int, char) Result, n + 100)) 0
     = Inr (Result_from_Err (Inline CHR ''Z''), 1) \<and>
   PROPAGATE_then
     (\<lambda>n :: nat. (Result_from_Ok (Inline 5) :: (int, char) Result, Suc n))
     (\<lambda>v n. Inr (Result_from_Ok v :: (int, char) Result, n + 100)) 0
     = Inr (Result_from_Ok (Inline 5), 101)"
proof -
  have e: "error_value (Result_from_Err (Inline CHR ''Z'') :: (int, char) Result)
      = Inr (Inline CHR ''Z'')"
    by (simp add: error_value_def Result_from_Err_def Result_default_def DITTO_VERIFY_def
        reinterpret_Err_def)
  have v: "ok_value (Result_from_Ok (Inline 5) :: (int, char) Result) = Inr (Inline 5)"
    by (simp add: ok_value_def Result_from_Ok_def Result_default_def DITTO_VERIFY_def
        reinterpret_Ok_def)
  have 1: "PROPAGATE_then
     (\<lambda>n :: nat. (Result_from_Err (Inline CHR ''Z'') :: (int, char) Result, Suc n))
     (\<lambda>v n. Inr (Result_from_Ok v :: (int, char) Result, n + 100)) 0
     = Inr (Result_from_Err (Inline CHR ''Z''), 1)"
    using e PROPAGATE_short_circuits
      [where expression = "\<lambda>n :: nat. (Result_from_Err (Inline CHR ''Z'') :: (int, char) Result, Suc n)"
         and s = 0 and s' = 1
         and r = "Result_from_Err (Inline CHR ''Z'') :: (int, char) Result"
         and rest = "\<lambda>v n. Inr (Result_from_Ok v :: (int, char) Result, n + 100)"]
    by simp
  have 2: "PROPAGATE_then
     (\<lambda>n :: nat. (Result_from_Ok (Inline 5) :: (int, char) Result, Suc n))
     (\<lambda>v n. Inr (Result_from_Ok v :: (int, char) Result, n + 100)) 0
     = Inr (Result_from_Ok (Inline 5), 101)"
    using v PROPAGATE_short_circuits
      [where expression = "\<lambda>n :: nat. (Result_from_Ok (Inline 5) :: (int, char) Result, Suc n)"
         and s = 0 and s' = 1
         and r = "Result_from_Ok (Inline 5) :: (int, char) Result"
         and rest = "\<lambda>v n. Inr (Result_from_Ok v :: (int, char) Result, n + 100)"]
    by simp
  from 1 2 show ?thesis by simp
qed

section \<open>The discriminant\<close>

lemma exactly_one_live_iff:
  "exactly_one_live r \<longleftrightarrow>
     (case m_memory_buffer r of
        Uninitialised \<Rightarrow> False
      | Holds_Ok _ \<Rightarrow> m_is_ok r
      | Holds_Err _ \<Rightarrow> \<not> m_is_ok r)"
  by (auto simp add: exactly_one_live_def Ok_live_def Err_live_def split: storage.splits)

lemma ok_value_update_Inr:
  assumes "ok_value_update f h r = Inr (h', r')"
  shows "\<exists>x. m_is_ok r \<and> r' = r\<lparr>m_memory_buffer := Holds_Ok x\<rparr>"
  using assms
  by (auto simp add: ok_value_update_def ok_value_def DITTO_VERIFY_def
      split: sum.splits if_splits)

lemma error_value_update_Inr:
  assumes "error_value_update f h r = Inr (h', r')"
  shows "\<exists>x. \<not> m_is_ok r \<and> r' = r\<lparr>m_memory_buffer := Holds_Err x\<rparr>"
  using assms
  by (auto simp add: error_value_update_def error_value_def DITTO_VERIFY_def
      split: sum.splits if_splits)

text \<open>
  The assignment operators replace both members by the source's: the assigned object
  takes the discriminant of the source.
\<close>

lemma Result_copy_assign_takes_source: "Result_copy_assign this other = other"
  by (simp add: Result_copy_assign_def)

lemma Result_move_assign_takes_source: "Result_move_assign this other = (other, other)"
  by (simp add: Result_move_assign_def)

text \<open>
  C5. After each constructor and each factory of the full form exactly one alternative
  is live: the flag names it and the buffer holds it. The queries and the borrowing
  accessors are functions of the object and write no member. A consuming access, and a
  change of the payload through a borrowed reference, leave an object in which exactly
  one alternative is live and whose flag is the one it had. Copy and move construction
  give the new object the discriminant of the source and leave the source's as it was.
  Copy and move assignment give the assigned object the discriminant of the source,
  whatever its own was, and leave the source's as it was; the assigned object has
  exactly one alternative live when the source has.
\<close>

theorem discriminant_kept_except_by_assignment:
  fixes r :: "('ok, 'err) Result"
    and ctor_ok :: "'args1 \<Rightarrow> 's1 \<Rightarrow> 'ok obj \<times> 's1"
    and ctor_err :: "'args2 \<Rightarrow> 's2 \<Rightarrow> 'err obj \<times> 's2"
  shows
  "exactly_one_live (Result_from_Ok v :: ('ok, 'err) Result) \<and>
   Ok_live (Result_from_Ok v :: ('ok, 'err) Result) \<and>
   exactly_one_live (Result_from_Err e :: ('ok, 'err) Result) \<and>
   Err_live (Result_from_Err e :: ('ok, 'err) Result) \<and>
   exactly_one_live (fst (ok ctor_ok a1 s1) :: ('ok, 'err) Result) \<and>
   Ok_live (fst (ok ctor_ok a1 s1) :: ('ok, 'err) Result) \<and>
   exactly_one_live (fst (error ctor_err a2 s2) :: ('ok, 'err) Result) \<and>
   Err_live (fst (error ctor_err a2 s2) :: ('ok, 'err) Result) \<and>
   (exactly_one_live r \<longrightarrow>
      (\<forall>x r'. ok_value_rvalue r = Inr (x, r') \<longrightarrow>
         exactly_one_live r' \<and> m_is_ok r' = m_is_ok r \<and> Ok_live r' = Ok_live r) \<and>
      (\<forall>x r'. error_value_rvalue r = Inr (x, r') \<longrightarrow>
         exactly_one_live r' \<and> m_is_ok r' = m_is_ok r \<and> Ok_live r' = Ok_live r) \<and>
      (\<forall>f h h' r'. ok_value_update f h r = Inr (h', r') \<longrightarrow>
         exactly_one_live r' \<and> m_is_ok r' = m_is_ok r \<and> Ok_live r' = Ok_live r) \<and>
      (\<forall>f h h' r'. error_value_update f h r = Inr (h', r') \<longrightarrow>
         exactly_one_live r' \<and> m_is_ok r' = m_is_ok r \<and> Ok_live r' = Ok_live r) \<and>
      exactly_one_live (Result_copy r) \<and> m_is_ok (Result_copy r) = m_is_ok r \<and>
      Ok_live (Result_copy r) = Ok_live r \<and>
      exactly_one_live (fst (Result_move r)) \<and> m_is_ok (fst (Result_move r)) = m_is_ok r \<and>
      Ok_live (fst (Result_move r)) = Ok_live r \<and>
      m_is_ok (snd (Result_move r)) = m_is_ok r \<and>
      (\<forall>this.
         exactly_one_live (Result_copy_assign this r) \<and>
         m_is_ok (Result_copy_assign this r) = m_is_ok r \<and>
         Ok_live (Result_copy_assign this r) = Ok_live r \<and>
         exactly_one_live (fst (Result_move_assign this r)) \<and>
         m_is_ok (fst (Result_move_assign this r)) = m_is_ok r \<and>
         Ok_live (fst (Result_move_assign this r)) = Ok_live r \<and>
         m_is_ok (snd (Result_move_assign this r)) = m_is_ok r))"
proof -
  have ctors:
    "exactly_one_live (Result_from_Ok v :: ('ok, 'err) Result) \<and>
     Ok_live (Result_from_Ok v :: ('ok, 'err) Result) \<and>
     exactly_one_live (Result_from_Err e :: ('ok, 'err) Result) \<and>
     Err_live (Result_from_Err e :: ('ok, 'err) Result)"
    by (simp add: exactly_one_live_def Ok_live_def Err_live_def Result_from_Ok_def
        Result_from_Err_def Result_default_def)
  have factories:
    "exactly_one_live (fst (ok ctor_ok a1 s1) :: ('ok, 'err) Result) \<and>
     Ok_live (fst (ok ctor_ok a1 s1) :: ('ok, 'err) Result) \<and>
     exactly_one_live (fst (error ctor_err a2 s2) :: ('ok, 'err) Result) \<and>
     Err_live (fst (error ctor_err a2 s2) :: ('ok, 'err) Result)"
    by (simp add: exactly_one_live_def Ok_live_def Err_live_def ok_def error_def
        Result_default_def split: prod.splits)
  have consume_ok: "exactly_one_live r' \<and> m_is_ok r' = m_is_ok r \<and> Ok_live r' = Ok_live r"
    if "exactly_one_live r" and "ok_value_rvalue r = Inr (x, r')" for x r'
    using that by (auto simp add: ok_value_rvalue_Inr_iff exactly_one_live_iff Ok_live_def)
  have consume_err: "exactly_one_live r' \<and> m_is_ok r' = m_is_ok r \<and> Ok_live r' = Ok_live r"
    if "exactly_one_live r" and "error_value_rvalue r = Inr (x, r')" for x r'
    using that by (auto simp add: error_value_rvalue_Inr_iff exactly_one_live_iff Ok_live_def)
  have update_ok: "exactly_one_live r' \<and> m_is_ok r' = m_is_ok r \<and> Ok_live r' = Ok_live r"
    if "exactly_one_live r" and "ok_value_update f h r = Inr (h', r')" for f h h' r'
    using that(1) ok_value_update_Inr [OF that(2)]
    by (auto simp add: exactly_one_live_iff Ok_live_def split: storage.splits)
  have update_err: "exactly_one_live r' \<and> m_is_ok r' = m_is_ok r \<and> Ok_live r' = Ok_live r"
    if "exactly_one_live r" and "error_value_update f h r = Inr (h', r')" for f h h' r'
    using that(1) error_value_update_Inr [OF that(2)]
    by (auto simp add: exactly_one_live_iff Ok_live_def split: storage.splits)
  have construct:
    "exactly_one_live (Result_copy r) \<and> m_is_ok (Result_copy r) = m_is_ok r \<and>
     Ok_live (Result_copy r) = Ok_live r \<and>
     exactly_one_live (fst (Result_move r)) \<and> m_is_ok (fst (Result_move r)) = m_is_ok r \<and>
     Ok_live (fst (Result_move r)) = Ok_live r \<and>
     m_is_ok (snd (Result_move r)) = m_is_ok r"
    if "exactly_one_live r"
    using that by (simp add: Result_copy_same Result_move_same)
  have assign:
    "exactly_one_live (Result_copy_assign this r) \<and>
     m_is_ok (Result_copy_assign this r) = m_is_ok r \<and>
     Ok_live (Result_copy_assign this r) = Ok_live r \<and>
     exactly_one_live (fst (Result_move_assign this r)) \<and>
     m_is_ok (fst (Result_move_assign this r)) = m_is_ok r \<and>
     Ok_live (fst (Result_move_assign this r)) = Ok_live r \<and>
     m_is_ok (snd (Result_move_assign this r)) = m_is_ok r"
    if "exactly_one_live r" for this
    using that
    by (simp add: Result_copy_assign_takes_source Result_move_assign_takes_source)
  from ctors factories consume_ok consume_err update_ok update_err construct assign
  show ?thesis
    by blast
qed

theorem discriminant_kept_except_by_assignment_witness:
  "exactly_one_live (Result_from_Ok (Owns 0) :: (string, int) Result) \<and>
   ok_value_rvalue (Result_from_Ok (Owns 0) :: (string, int) Result) =
     Inr (Owns 0, \<lparr>m_is_ok = True, m_memory_buffer = Holds_Ok Vacated\<rparr>) \<and>
   exactly_one_live (\<lparr>m_is_ok = True, m_memory_buffer = Holds_Ok Vacated\<rparr> :: (string, int) Result) \<and>
   m_is_ok (\<lparr>m_is_ok = True, m_memory_buffer = Holds_Ok Vacated\<rparr> :: (string, int) Result) =
     m_is_ok (Result_from_Ok (Owns 0) :: (string, int) Result) \<and>
   ok_value_update (\<lambda>s. s @ ''!'') [Some ''abc''] (Result_from_Ok (Owns 0) :: (string, int) Result) =
     Inr ([Some ''abc!''], \<lparr>m_is_ok = True, m_memory_buffer = Holds_Ok (Owns 0)\<rparr>) \<and>
   exactly_one_live (\<lparr>m_is_ok = True, m_memory_buffer = Holds_Ok (Owns 0)\<rparr> :: (string, int) Result) \<and>
   exactly_one_live (Result_from_Err (Inline 7) :: (string, int) Result) \<and>
   error_value_rvalue (Result_from_Err (Inline 7) :: (string, int) Result) =
     Inr (Inline 7, \<lparr>m_is_ok = False, m_memory_buffer = Holds_Err (Inline 7)\<rparr>) \<and>
   exactly_one_live (\<lparr>m_is_ok = False, m_memory_buffer = Holds_Err (Inline 7)\<rparr> :: (string, int) Result) \<and>
   error_value_update (\<lambda>n. n + 1) [] (Result_from_Err (Inline 7) :: (string, int) Result) =
     Inr ([], \<lparr>m_is_ok = False, m_memory_buffer = Holds_Err (Inline 8)\<rparr>) \<and>
   exactly_one_live (\<lparr>m_is_ok = False, m_memory_buffer = Holds_Err (Inline 8)\<rparr> :: (string, int) Result) \<and>
   exactly_one_live (Result_copy (Result_from_Ok (Owns 0) :: (string, int) Result)) \<and>
   m_is_ok (Result_copy (Result_from_Ok (Owns 0) :: (string, int) Result)) \<and>
   m_is_ok (fst (Result_move (Result_from_Ok (Owns 0) :: (string, int) Result))) \<and>
   exactly_one_live
     (Result_copy_assign (Result_from_Ok (Owns 0)) (Result_from_Err (Inline 7) :: (string, int) Result)) \<and>
   \<not> m_is_ok
     (Result_copy_assign (Result_from_Ok (Owns 0)) (Result_from_Err (Inline 7) :: (string, int) Result)) \<and>
   \<not> m_is_ok
     (fst (Result_move_assign (Result_from_Ok (Owns 0)) (Result_from_Err (Inline 7) :: (string, int) Result))) \<and>
   m_is_ok
     (Result_copy_assign (Result_from_Err (Inline 7)) (Result_from_Ok (Owns 0) :: (string, int) Result))"
proof -
  let ?k = "Result_from_Ok (Owns 0) :: (string, int) Result"
  let ?e = "Result_from_Err (Inline 7) :: (string, int) Result"
  have k: "exactly_one_live ?k"
    by (simp add: exactly_one_live_iff Result_from_Ok_def Result_default_def)
  have e: "exactly_one_live ?e"
    by (simp add: exactly_one_live_iff Result_from_Err_def Result_default_def)
  have kf: "m_is_ok ?k"
    by (simp add: Result_from_Ok_def Result_default_def)
  have ef: "\<not> m_is_ok ?e"
    by (simp add: Result_from_Err_def Result_default_def)
  have k1: "ok_value_rvalue ?k = Inr (Owns 0, \<lparr>m_is_ok = True, m_memory_buffer = Holds_Ok Vacated\<rparr>)"
    by (simp add: ok_value_rvalue_def Result_from_Ok_def Result_default_def DITTO_VERIFY_def
        reinterpret_Ok_def)
  have k2: "ok_value_update (\<lambda>s. s @ ''!'') [Some ''abc''] ?k =
      Inr ([Some ''abc!''], \<lparr>m_is_ok = True, m_memory_buffer = Holds_Ok (Owns 0)\<rparr>)"
    by (simp add: ok_value_update_def ok_value_def Result_from_Ok_def Result_default_def
        DITTO_VERIFY_def reinterpret_Ok_def heap_lookup_def)
  have e1: "error_value_rvalue ?e =
      Inr (Inline 7, \<lparr>m_is_ok = False, m_memory_buffer = Holds_Err (Inline 7)\<rparr>)"
    by (simp add: error_value_rvalue_def Result_from_Err_def Result_default_def DITTO_VERIFY_def
        reinterpret_Err_def)
  have e2: "error_value_update (\<lambda>n. n + 1) [] ?e =
      Inr ([], \<lparr>m_is_ok = False, m_memory_buffer = Holds_Err (Inline 8)\<rparr>)"
    by (simp add: error_value_update_def error_value_def Result_from_Err_def Result_default_def
        DITTO_VERIFY_def reinterpret_Err_def)
  note K = discriminant_kept_except_by_assignment
    [where r = ?k, THEN conjunct2, THEN conjunct2, THEN conjunct2, THEN conjunct2,
      THEN conjunct2, THEN conjunct2, THEN conjunct2, THEN conjunct2, THEN mp, OF k]
  note E = discriminant_kept_except_by_assignment
    [where r = ?e, THEN conjunct2, THEN conjunct2, THEN conjunct2, THEN conjunct2,
      THEN conjunct2, THEN conjunct2, THEN conjunct2, THEN conjunct2, THEN mp, OF e]
  from K k1 have a:
    "exactly_one_live (\<lparr>m_is_ok = True, m_memory_buffer = Holds_Ok Vacated\<rparr> :: (string, int) Result) \<and>
     m_is_ok (\<lparr>m_is_ok = True, m_memory_buffer = Holds_Ok Vacated\<rparr> :: (string, int) Result) = m_is_ok ?k"
    by blast
  from K k2 have b:
    "exactly_one_live (\<lparr>m_is_ok = True, m_memory_buffer = Holds_Ok (Owns 0)\<rparr> :: (string, int) Result)"
    by blast
  from E e1 have c:
    "exactly_one_live (\<lparr>m_is_ok = False, m_memory_buffer = Holds_Err (Inline 7)\<rparr> :: (string, int) Result)"
    by blast
  from E e2 have d:
    "exactly_one_live (\<lparr>m_is_ok = False, m_memory_buffer = Holds_Err (Inline 8)\<rparr> :: (string, int) Result)"
    by blast
  from K kf have f:
    "exactly_one_live (Result_copy ?k) \<and> m_is_ok (Result_copy ?k) \<and>
     m_is_ok (fst (Result_move ?k)) \<and> m_is_ok (Result_copy_assign ?e ?k)"
    by simp
  from E ef have g:
    "exactly_one_live (Result_copy_assign ?k ?e) \<and> \<not> m_is_ok (Result_copy_assign ?k ?e) \<and>
     \<not> m_is_ok (fst (Result_move_assign ?k ?e))"
    by simp
  from k e k1 k2 e1 e2 a b c d f g show ?thesis
    by simp
qed

text \<open>
  An assignment changes the discriminant of a live object: a success instance that is
  assigned a failure instance, both with exactly one alternative live, answers
  \<^verbatim>\<open>is_ok()\<close> with false afterwards, by copy and by move assignment alike.
\<close>

theorem assignment_replaces_discriminant_counterexample:
  "exactly_one_live (Result_from_Ok (Inline 5) :: (int, char) Result) \<and>
   exactly_one_live (Result_from_Err (Inline CHR ''E'') :: (int, char) Result) \<and>
   is_ok (Result_from_Ok (Inline 5) :: (int, char) Result) \<and>
   Ok_live (Result_from_Ok (Inline 5) :: (int, char) Result) \<and>
   \<not> is_ok (Result_copy_assign (Result_from_Ok (Inline 5))
              (Result_from_Err (Inline CHR ''E'') :: (int, char) Result)) \<and>
   \<not> Ok_live (Result_copy_assign (Result_from_Ok (Inline 5))
              (Result_from_Err (Inline CHR ''E'') :: (int, char) Result)) \<and>
   Err_live (Result_copy_assign (Result_from_Ok (Inline 5))
              (Result_from_Err (Inline CHR ''E'') :: (int, char) Result)) \<and>
   \<not> is_ok (fst (Result_move_assign (Result_from_Ok (Inline 5))
              (Result_from_Err (Inline CHR ''E'') :: (int, char) Result))) \<and>
   m_is_ok (Result_copy_assign (Result_from_Ok (Inline 5))
              (Result_from_Err (Inline CHR ''E'') :: (int, char) Result)) \<noteq>
     m_is_ok (Result_from_Ok (Inline 5) :: (int, char) Result)"
  by (simp add: exactly_one_live_def Ok_live_def Err_live_def is_ok_def Result_copy_assign_def
      Result_move_assign_def Result_from_Ok_def Result_from_Err_def Result_default_def)

section \<open>The factories\<close>

text \<open>
  C6. \<^verbatim>\<open>Result::ok(args...)\<close> takes any argument pack (\<open>'args\<close> is any type: the
  unit type for no argument, a tuple for several), constructs the success payload in
  place with the payload constructor applied to these arguments, and yields a Result
  that answers \<^verbatim>\<open>is_ok()\<close> with true and holds that payload; the only effect is
  that of the payload constructor. \<^verbatim>\<open>Result::error(args...)\<close> does the same for
  the failure payload and yields a Result that answers \<^verbatim>\<open>is_error()\<close> with true.
\<close>

theorem factories_construct_in_place:
  fixes ctor_ok :: "'args1 \<Rightarrow> 's1 \<Rightarrow> 'ok obj \<times> 's1"
    and ctor_err :: "'args2 \<Rightarrow> 's2 \<Rightarrow> 'err obj \<times> 's2"
    and nullary :: "unit \<Rightarrow> 's1 \<Rightarrow> 'ok obj \<times> 's1"
  shows
  "is_ok (fst (ok ctor_ok a1 s1) :: ('ok, 'err) Result) \<and>
   \<not> is_error (fst (ok ctor_ok a1 s1) :: ('ok, 'err) Result) \<and>
   ok_value (fst (ok ctor_ok a1 s1) :: ('ok, 'err) Result) = Inr (fst (ctor_ok a1 s1)) \<and>
   snd (ok ctor_ok a1 s1 :: ('ok, 'err) Result \<times> 's1) = snd (ctor_ok a1 s1) \<and>
   is_ok (fst (ok nullary () s1) :: ('ok, 'err) Result) \<and>
   ok_value (fst (ok nullary () s1) :: ('ok, 'err) Result) = Inr (fst (nullary () s1)) \<and>
   is_error (fst (error ctor_err a2 s2) :: ('ok, 'err) Result) \<and>
   \<not> is_ok (fst (error ctor_err a2 s2) :: ('ok, 'err) Result) \<and>
   error_value (fst (error ctor_err a2 s2) :: ('ok, 'err) Result) = Inr (fst (ctor_err a2 s2)) \<and>
   snd (error ctor_err a2 s2 :: ('ok, 'err) Result \<times> 's2) = snd (ctor_err a2 s2)"
  by (simp add: is_ok_def is_error_def ok_value_Inr_iff error_value_Inr_iff ok_def error_def
      Result_default_def split: prod.splits)

text \<open>
  C7. In the Ok-only form \<^verbatim>\<open>error()\<close> takes no argument and yields a Result that
  answers \<^verbatim>\<open>is_error()\<close> with true and holds no payload: its buffer is
  uninitialised, and the only accessors of the form, \<^verbatim>\<open>ok_value()\<close> in its two
  variants, end in the fatal assertion. In the Err-only form \<^verbatim>\<open>ok()\<close> takes no
  argument and yields a Result that answers \<^verbatim>\<open>is_ok()\<close> with true and holds no
  payload, and the accessors of that form, \<^verbatim>\<open>error_value()\<close>, end in the fatal
  assertion.
\<close>

theorem payload_free_alternatives:
  "is_error_Ok_void error_Ok_void \<and>
   \<not> is_ok_Ok_void error_Ok_void \<and>
   m_memory_buffer_ov error_Ok_void = None \<and>
   ok_value_Ok_void error_Ok_void = Inl Verify_Failed \<and>
   ok_value_rvalue_Ok_void error_Ok_void = Inl Verify_Failed \<and>
   is_ok_void_Err ok_void_Err \<and>
   \<not> is_error_void_Err ok_void_Err \<and>
   m_memory_buffer_ve ok_void_Err = None \<and>
   error_value_void_Err ok_void_Err = Inl Verify_Failed \<and>
   error_value_rvalue_void_Err ok_void_Err = Inl Verify_Failed"
  by (simp add: is_error_Ok_void_def is_ok_Ok_void_def error_Ok_void_def
      Result_Ok_void_default_def ok_value_Ok_void_def ok_value_rvalue_Ok_void_def
      is_ok_void_Err_def is_error_void_Err_def ok_void_Err_def Result_void_Err_default_def
      error_value_void_Err_def error_value_rvalue_void_Err_def DITTO_VERIFY_def)

section \<open>The queries\<close>

text \<open>
  C9. \<^verbatim>\<open>is_ok()\<close> and \<^verbatim>\<open>is_error()\<close> are total functions of the object: they
  have no failing branch and return no new state. On every Result, of each of the three
  forms, \<^verbatim>\<open>is_error()\<close> is the negation of \<^verbatim>\<open>is_ok()\<close>, and both read the flag.
\<close>

theorem queries_complementary:
  "is_error r = (\<not> is_ok r) \<and> is_ok r = m_is_ok r \<and>
   is_error_Ok_void r1 = (\<not> is_ok_Ok_void r1) \<and> is_ok_Ok_void r1 = m_is_ok_ov r1 \<and>
   is_error_void_Err r2 = (\<not> is_ok_void_Err r2) \<and> is_ok_void_Err r2 = m_is_ok_ve r2"
  by (simp add: is_error_def is_ok_def is_error_Ok_void_def is_ok_Ok_void_def
      is_error_void_Err_def is_ok_void_Err_def)

section \<open>Consuming access\<close>

text \<open>
  C10. A consuming access that returns hands out the payload that was live and leaves
  the source with the same discriminant: \<^verbatim>\<open>is_ok()\<close> and \<^verbatim>\<open>is_error()\<close> answer
  on the source afterwards what they answered before, and the source's payload is the
  moved-from one. The access does return when its alternative is live.
\<close>

theorem consuming_access_keeps_discriminant:
  "(\<forall>x r'. ok_value_rvalue r = Inr (x, r') \<longrightarrow>
      ok_value r = Inr x \<and> is_ok r' = is_ok r \<and> is_error r' = is_error r \<and>
      m_memory_buffer r' = Holds_Ok (snd (obj_move x))) \<and>
   (\<forall>x r'. error_value_rvalue r = Inr (x, r') \<longrightarrow>
      error_value r = Inr x \<and> is_ok r' = is_ok r \<and> is_error r' = is_error r \<and>
      m_memory_buffer r' = Holds_Err (snd (obj_move x))) \<and>
   (Ok_live r \<longrightarrow> (\<exists>x r'. ok_value_rvalue r = Inr (x, r'))) \<and>
   (Err_live r \<longrightarrow> (\<exists>x r'. error_value_rvalue r = Inr (x, r')))"
proof (intro conjI allI impI)
  fix x r'
  assume "ok_value_rvalue r = Inr (x, r')"
  then have *: "m_is_ok r" "m_memory_buffer r = Holds_Ok x"
    "r' = r\<lparr>m_memory_buffer := Holds_Ok (snd (obj_move x))\<rparr>"
    by (simp_all add: ok_value_rvalue_Inr_iff)
  from * show "ok_value r = Inr x" by (simp add: ok_value_Inr_iff)
  from * show "is_ok r' = is_ok r" by (simp add: is_ok_def)
  from * show "is_error r' = is_error r" by (simp add: is_error_def)
  from * show "m_memory_buffer r' = Holds_Ok (snd (obj_move x))" by simp
next
  fix x r'
  assume "error_value_rvalue r = Inr (x, r')"
  then have *: "\<not> m_is_ok r" "m_memory_buffer r = Holds_Err x"
    "r' = r\<lparr>m_memory_buffer := Holds_Err (snd (obj_move x))\<rparr>"
    by (simp_all add: error_value_rvalue_Inr_iff)
  from * show "error_value r = Inr x" by (simp add: error_value_Inr_iff)
  from * show "is_ok r' = is_ok r" by (simp add: is_ok_def)
  from * show "is_error r' = is_error r" by (simp add: is_error_def)
  from * show "m_memory_buffer r' = Holds_Err (snd (obj_move x))" by simp
next
  assume "Ok_live r"
  then obtain x where "m_is_ok r" "m_memory_buffer r = Holds_Ok x"
    by (auto simp add: Ok_live_def split: storage.splits)
  then show "\<exists>x r'. ok_value_rvalue r = Inr (x, r')"
    by (simp add: ok_value_rvalue_Inr_iff)
next
  assume "Err_live r"
  then obtain x where "\<not> m_is_ok r" "m_memory_buffer r = Holds_Err x"
    by (auto simp add: Err_live_def split: storage.splits)
  then show "\<exists>x r'. error_value_rvalue r = Inr (x, r')"
    by (simp add: error_value_rvalue_Inr_iff)
qed

theorem consuming_access_keeps_discriminant_witness:
  "Ok_live (Result_from_Ok (Owns 3) :: (string, int) Result) \<and>
   ok_value_rvalue (Result_from_Ok (Owns 3) :: (string, int) Result) =
     Inr (Owns 3, \<lparr>m_is_ok = True, m_memory_buffer = Holds_Ok Vacated\<rparr>) \<and>
   is_ok (\<lparr>m_is_ok = True, m_memory_buffer = Holds_Ok Vacated\<rparr> :: (string, int) Result) =
     is_ok (Result_from_Ok (Owns 3) :: (string, int) Result) \<and>
   is_error (\<lparr>m_is_ok = True, m_memory_buffer = Holds_Ok Vacated\<rparr> :: (string, int) Result) =
     is_error (Result_from_Ok (Owns 3) :: (string, int) Result) \<and>
   Err_live (Result_from_Err (Inline 7) :: (string, int) Result) \<and>
   error_value_rvalue (Result_from_Err (Inline 7) :: (string, int) Result) =
     Inr (Inline 7, \<lparr>m_is_ok = False, m_memory_buffer = Holds_Err (Inline 7)\<rparr>) \<and>
   is_ok (\<lparr>m_is_ok = False, m_memory_buffer = Holds_Err (Inline 7)\<rparr> :: (string, int) Result) =
     is_ok (Result_from_Err (Inline 7) :: (string, int) Result) \<and>
   is_error (\<lparr>m_is_ok = False, m_memory_buffer = Holds_Err (Inline 7)\<rparr> :: (string, int) Result) =
     is_error (Result_from_Err (Inline 7) :: (string, int) Result)"
proof -
  let ?k = "Result_from_Ok (Owns 3) :: (string, int) Result"
  let ?e = "Result_from_Err (Inline 7) :: (string, int) Result"
  have k: "Ok_live ?k"
    by (simp add: Ok_live_def Result_from_Ok_def Result_default_def)
  have e: "Err_live ?e"
    by (simp add: Err_live_def Result_from_Err_def Result_default_def)
  have k1: "ok_value_rvalue ?k = Inr (Owns 3, \<lparr>m_is_ok = True, m_memory_buffer = Holds_Ok Vacated\<rparr>)"
    by (simp add: ok_value_rvalue_def Result_from_Ok_def Result_default_def DITTO_VERIFY_def
        reinterpret_Ok_def)
  have e1: "error_value_rvalue ?e =
      Inr (Inline 7, \<lparr>m_is_ok = False, m_memory_buffer = Holds_Err (Inline 7)\<rparr>)"
    by (simp add: error_value_rvalue_def Result_from_Err_def Result_default_def DITTO_VERIFY_def
        reinterpret_Err_def)
  from consuming_access_keeps_discriminant [of ?k] k1 have a:
    "is_ok (\<lparr>m_is_ok = True, m_memory_buffer = Holds_Ok Vacated\<rparr> :: (string, int) Result) = is_ok ?k \<and>
     is_error (\<lparr>m_is_ok = True, m_memory_buffer = Holds_Ok Vacated\<rparr> :: (string, int) Result) = is_error ?k"
    by blast
  from consuming_access_keeps_discriminant [of ?e] e1 have b:
    "is_ok (\<lparr>m_is_ok = False, m_memory_buffer = Holds_Err (Inline 7)\<rparr> :: (string, int) Result) = is_ok ?e \<and>
     is_error (\<lparr>m_is_ok = False, m_memory_buffer = Holds_Err (Inline 7)\<rparr> :: (string, int) Result) = is_error ?e"
    by blast
  from k e k1 e1 a b show ?thesis
    by simp
qed

end
